theory Spec2Isabelle
  imports Complex_Main "HOL-Library.AList"
begin

section \<open>JavaScript values\<close>

text \<open>
  The values that \<^verbatim>\<open>src/lib/telemetry.js\<close> handles: the Do-Not-Track flags, the
  arguments of \<^verbatim>\<open>gtag\<close> commands and the fields of the configuration object.
  An object is an association list in property order.
\<close>

datatype jsval =
    Undefined
  | Null
  | JBool bool
  | JNum rat
  | JStr string
  | JObj "(string \<times> jsval) list"
  | JDate int

type_synonym obj = "(string \<times> jsval) list"

text \<open>Truthiness, as \<^verbatim>\<open>if (x)\<close> and \<^verbatim>\<open>x || y\<close> test it.\<close>

fun truthy :: "jsval \<Rightarrow> bool" where
  "truthy Undefined = False"
| "truthy Null = False"
| "truthy (JBool b) = b"
| "truthy (JNum n) = (n \<noteq> 0)"
| "truthy (JStr s) = (s \<noteq> [])"
| "truthy (JObj ps) = True"
| "truthy (JDate d) = True"

text \<open>Reading a property: \<^verbatim>\<open>o.k\<close> is \<^verbatim>\<open>undefined\<close> when \<^verbatim>\<open>o\<close> has no property \<^verbatim>\<open>k\<close>.\<close>

definition get_prop :: "obj \<Rightarrow> string \<Rightarrow> jsval" where
  "get_prop ps k = (case map_of ps k of None \<Rightarrow> Undefined | Some v \<Rightarrow> v)"

text \<open>Writing a property: \<^verbatim>\<open>o.k = v\<close> overwrites in place or appends.\<close>

definition set_prop :: "obj \<Rightarrow> string \<Rightarrow> jsval \<Rightarrow> obj" where
  "set_prop ps k v = AList.update k v ps"

text \<open>
  \<^verbatim>\<open>options = options || {}\<close> for a parameter documented as an object: an omitted
  argument (\<open>None\<close>) becomes the empty object.
\<close>

definition or_empty :: "obj option \<Rightarrow> obj" where
  "or_empty o_opt = (case o_opt of None \<Rightarrow> [] | Some ps \<Rightarrow> ps)"

section \<open>The page: window, document, console and the performance timeline\<close>

datatype exn = TypeError | SyntaxError

text \<open>
  \<^verbatim>\<open>window.gtag\<close> is either a function the page defined before the library was
  evaluated (\<open>PageGtag\<close>, opaque: the model records the commands it receives) or the
  closure of line 68, \<^verbatim>\<open>function () { dataLayer.push(arguments); }\<close> (\<open>LibGtag\<close>).
\<close>

datatype gtag_fn = PageGtag | LibGtag

text \<open>The two completion callbacks handed to \<^verbatim>\<open>injectScript\<close> (lines 71 and 82).\<close>

datatype callback = analytics_callback | raven_callback

text \<open>
  The listeners \<^verbatim>\<open>injectScript\<close> registers (lines 171 and 176), each closing over the
  \<^verbatim>\<open>callback\<close> parameter, which may have been omitted.
\<close>

datatype listener = load_listener "callback option" | error_listener "callback option"

text \<open>
  A script element. \<open>el_src\<close> and \<open>el_crossOrigin\<close> are the two properties of
  \<^verbatim>\<open>HTMLScriptElement\<close> that decide what is fetched and in which CORS mode
  (\<^verbatim>\<open>crossOrigin\<close> is \<^verbatim>\<open>null\<close> on a fresh element). Any other property assigned to
  the element is an ordinary own property that the browser does not interpret; those
  are kept in \<open>el_expando\<close>. Property names are case sensitive.
\<close>

record script_element =
  el_src :: string
  el_crossOrigin :: "string option"
  el_expando :: obj
  el_listeners :: "(string \<times> listener) list"

datatype cors_mode = NoCORS | Anonymous | UseCredentials

text \<open>
  The CORS settings of a script element: without \<^verbatim>\<open>crossOrigin\<close> the script is
  fetched in no-cors mode, with the credentials of its origin; \<^verbatim>\<open>"use-credentials"\<close>
  selects CORS with credentials; every other value selects anonymous CORS.
\<close>

definition cors_setting :: "script_element \<Rightarrow> cors_mode" where
  "cors_setting el =
     (case el_crossOrigin el of
        None \<Rightarrow> NoCORS
      | Some v \<Rightarrow> if v = ''use-credentials'' then UseCredentials else Anonymous)"

datatype entry_type = Mark | Measure

record perf_entry =
  entry_name :: string
  entry_type :: entry_type
  startTime :: rat
  duration :: rat

text \<open>
  A tracker is one of the two functions \<^verbatim>\<open>configureBoundTracker\<close> returns:
  \<^verbatim>\<open>NO_OP\<close>, or the closure \<^verbatim>\<open>trackingFunction\<close> over the variable \<^verbatim>\<open>groups\<close>.
\<close>

datatype tracker = NO_OP | trackingFunction jsval

text \<open>
  \<^verbatim>\<open>telemetry.performance\<close> is either the object of line 44, whose \<^verbatim>\<open>mark\<close> and
  \<^verbatim>\<open>measure\<close> are \<^verbatim>\<open>NO_OP\<close>, or the object \<^verbatim>\<open>setupPerformanceAPI\<close> installs, whose
  functions close over the tracker.
\<close>

datatype perf_api = perf_NO_OP | perf_bound tracker

text \<open>
  The state of a page. The three Do-Not-Track flags, \<^verbatim>\<open>window.dataLayer\<close>,
  \<^verbatim>\<open>window.gtag\<close> and whether \<^verbatim>\<open>'Raven' in window\<close> belong to the page;
  \<open>page_gtag_calls\<close>, \<open>raven_installed\<close>, \<open>head_children\<close>, \<open>console_warnings\<close>
  and \<open>timeline\<close> record what has reached the page's own \<^verbatim>\<open>gtag\<close>, Raven,
  \<^verbatim>\<open>document.head\<close>, \<^verbatim>\<open>console.warn\<close> and the performance timeline;
  \<open>performance_now\<close> and \<open>date_now\<close> are the two clocks. The last three fields are
  the library's own state: whether \<^verbatim>\<open>window.MozillaResearch.telemetry\<close> carries the
  accessor \<^verbatim>\<open>_gtag\<close> of line 38, the variable \<^verbatim>\<open>called\<close> of the guard of
  \<^verbatim>\<open>telemetry.start\<close>, and the object \<^verbatim>\<open>telemetry.performance\<close>.
\<close>

record world =
  navigator_doNotTrack :: jsval
  navigator_msDoNotTrack :: jsval
  window_doNotTrack :: jsval
  window_dataLayer :: "jsval list list option"
  window_gtag :: "gtag_fn option"
  page_gtag_calls :: "jsval list list"
  window_Raven :: bool
  raven_installed :: "string list"
  head_children :: "script_element list"
  console_warnings :: "jsval list list"
  timeline :: "perf_entry list"
  performance_now :: rat
  date_now :: int
  telemetry_gtag_defined :: bool
  called :: bool
  telemetry_performance :: perf_api

section \<open>The library\<close>

definition CURRENT_VERSION :: string where
  "CURRENT_VERSION = ''1.1.0''"

definition MOZILLA_RESEARCH_TRACKER :: string where
  "MOZILLA_RESEARCH_TRACKER = ''UA-77033033-6''"

subsection \<open>doNotTrack\<close>

definition doNotTrack :: "world \<Rightarrow> bool" where
  "doNotTrack w =
     (navigator_doNotTrack w = JStr ''1'' \<or>
      navigator_msDoNotTrack w = JStr ''1'' \<or>
      window_doNotTrack w = JStr ''1'')"

subsection \<open>The analytics channel\<close>

text \<open>
  Calling \<^verbatim>\<open>window.gtag\<close>. The library's own function pushes its arguments on the
  global \<^verbatim>\<open>dataLayer\<close>, looked up when it is called: with \<^verbatim>\<open>window.dataLayer\<close>
  undefined the property access \<^verbatim>\<open>dataLayer.push\<close> throws.
\<close>

fun gtag_apply :: "gtag_fn \<Rightarrow> jsval list \<Rightarrow> world \<Rightarrow> exn option \<times> world" where
  "gtag_apply PageGtag args w = (None, w\<lparr>page_gtag_calls := page_gtag_calls w @ [args]\<rparr>)"
| "gtag_apply LibGtag args w =
     (case window_dataLayer w of
        None \<Rightarrow> (Some TypeError, w)
      | Some dl \<Rightarrow> (None, w\<lparr>window_dataLayer := Some (dl @ [args])\<rparr>))"

text \<open>
  \<^verbatim>\<open>telemetry._gtag(...)\<close>: the getter of line 38 returns \<^verbatim>\<open>window.gtag || NO_OP\<close>,
  and the result is called with the arguments.
\<close>

definition telemetry_gtag :: "jsval list \<Rightarrow> world \<Rightarrow> exn option \<times> world" where
  "telemetry_gtag args w =
     (case window_gtag w of
        None \<Rightarrow> (None, w)
      | Some g \<Rightarrow> gtag_apply g args w)"

subsection \<open>injectScript\<close>

definition createElement_script :: script_element where
  "createElement_script =
     \<lparr>el_src = [], el_crossOrigin = None, el_expando = [], el_listeners = []\<rparr>"

definition injectScript :: "string \<Rightarrow> callback option \<Rightarrow> world \<Rightarrow> script_element \<times> world" where
  "injectScript src cb w =
     (let script = createElement_script;
          script = script\<lparr>el_src := src\<rparr>;
          script = script\<lparr>el_expando :=
                     set_prop (el_expando script) ''crossorigin'' (JStr ''anonymous'')\<rparr>;
          script = script\<lparr>el_listeners := el_listeners script @ [(''load'', load_listener cb)]\<rparr>;
          script = script\<lparr>el_listeners := el_listeners script @ [(''error'', error_listener cb)]\<rparr>
      in (script, w\<lparr>head_children := head_children w @ [script]\<rparr>))"

subsection \<open>Completion callbacks\<close>

definition console_warn :: "jsval list \<Rightarrow> world \<Rightarrow> world" where
  "console_warn args w = w\<lparr>console_warnings := console_warnings w @ [args]\<rparr>"

text \<open>\<^verbatim>\<open>Raven.config(dsn).install()\<close>: the model records the endpoint installed.\<close>

definition startRaven :: "world \<Rightarrow> world" where
  "startRaven w =
     w\<lparr>raven_installed := raven_installed w @
          [''https://e359be9fb9324addb0dc97b664cf5ee6@sentry.io/294878'']\<rparr>"

fun run_callback :: "callback \<Rightarrow> jsval \<Rightarrow> world \<Rightarrow> world" where
  "run_callback analytics_callback err w =
     (if truthy err
      then console_warn [JStr ''Could not load Analytics.js script:'', err] w
      else w)"
| "run_callback raven_callback err w =
     (if truthy err
      then console_warn [JStr ''Could not load Raven.js script:'', err] w
      else if \<not> window_Raven w
      then console_warn [JStr ''Could not find `window.Raven` global''] w
      else startRaven w)"

text \<open>
  The listeners of \<^verbatim>\<open>injectScript\<close>: on \<^verbatim>\<open>load\<close>, \<^verbatim>\<open>callback(null, true)\<close>; on
  \<^verbatim>\<open>error\<close>, \<^verbatim>\<open>callback(err)\<close> with the event object; nothing without a callback.
\<close>

fun run_listener :: "listener \<Rightarrow> obj \<Rightarrow> world \<Rightarrow> world" where
  "run_listener (load_listener cb) ev w =
     (case cb of None \<Rightarrow> w | Some c \<Rightarrow> run_callback c Null w)"
| "run_listener (error_listener cb) ev w =
     (case cb of None \<Rightarrow> w | Some c \<Rightarrow> run_callback c (JObj ev) w)"

text \<open>
  The browser completes the load of a script element by dispatching one event on it,
  \<^verbatim>\<open>load\<close> or \<^verbatim>\<open>error\<close>, in a task of its own: the listeners registered for that
  type run in order.
\<close>

definition dispatchEvent :: "script_element \<Rightarrow> string \<Rightarrow> obj \<Rightarrow> world \<Rightarrow> world" where
  "dispatchEvent el ty ev w =
     fold (\<lambda>(t, l) v. if t = ty then run_listener l ev v else v) (el_listeners el) w"

subsection \<open>setupAnalytics and setupErrorLogging\<close>

definition gtag_js_url :: string where
  "gtag_js_url = ''https://www.googletagmanager.com/gtag/js?id='' @ MOZILLA_RESEARCH_TRACKER"

definition raven_js_url :: string where
  "raven_js_url = ''https://cdn.ravenjs.com/3.22.3/console/raven.min.js''"

definition setupAnalytics :: "world \<Rightarrow> exn option \<times> world" where
  "setupAnalytics w =
     (if doNotTrack w then (None, w)
      else
        let w1 = w\<lparr>window_dataLayer :=
                    Some (case window_dataLayer w of Some dl \<Rightarrow> dl | None \<Rightarrow> [])\<rparr>;
            g = (case window_gtag w1 of Some f \<Rightarrow> f | None \<Rightarrow> LibGtag);
            w2 = w1\<lparr>window_gtag := Some g\<rparr>
        in case gtag_apply g [JStr ''js'', JDate (date_now w2)] w2 of
             (Some e, w3) \<Rightarrow> (Some e, w3)
           | (None, w3) \<Rightarrow> (None, snd (injectScript gtag_js_url (Some analytics_callback) w3)))"

definition setupErrorLogging :: "world \<Rightarrow> exn option \<times> world" where
  "setupErrorLogging w =
     (if doNotTrack w then (None, w)
      else (None, snd (injectScript raven_js_url (Some raven_callback) w)))"

subsection \<open>configureBoundTracker\<close>

definition configureBoundTracker ::
  "string \<Rightarrow> obj option \<Rightarrow> world \<Rightarrow> (exn + tracker) \<times> world" where
  "configureBoundTracker trackingId options w =
     (if doNotTrack w then (Inr NO_OP, w)
      else
        let options = or_empty options;
            groups = get_prop options ''groups''
        in case telemetry_gtag [JStr ''config'', JStr trackingId, JObj options] w of
             (Some e, w') \<Rightarrow> (Inl e, w')
           | (None, w') \<Rightarrow> (Inr (trackingFunction groups), w'))"

text \<open>Calling a tracker with \<^verbatim>\<open>(command, label, options)\<close>.\<close>

fun call_tracker ::
  "tracker \<Rightarrow> jsval \<Rightarrow> jsval \<Rightarrow> obj option \<Rightarrow> world \<Rightarrow> exn option \<times> world" where
  "call_tracker NO_OP command label options w = (None, w)"
| "call_tracker (trackingFunction groups) command label options w =
     (if doNotTrack w then (None, w)
      else
        let options = or_empty options;
            options = (if truthy groups then set_prop options ''send_to'' groups else options)
        in telemetry_gtag [command, label, JObj options] w)"

definition startAnalytics :: "world \<Rightarrow> (exn + tracker) \<times> world" where
  "startAnalytics w =
     (case configureBoundTracker MOZILLA_RESEARCH_TRACKER
             (Some [(''groups'', JStr ''MozillaResearch''),
                    (''custom_map'', JObj [(''dimension1'', JStr ''version'')])]) w of
        (Inl e, w1) \<Rightarrow> (Inl e, w1)
      | (Inr tracker, w1) \<Rightarrow>
          (case call_tracker tracker (JStr ''event'') (JStr ''using_webvr_template'')
                  (Some [(''version'', JStr CURRENT_VERSION)]) w1 of
             (Some e, w2) \<Rightarrow> (Inl e, w2)
           | (None, w2) \<Rightarrow> (Inr tracker, w2)))"

subsection \<open>The performance timeline of the browser\<close>

text \<open>
  The User Timing interface of the browser, for names that are not attributes of the
  navigation timing. \<^verbatim>\<open>performance.mark(name)\<close> records a mark at the current time.
\<close>

definition performance_mark :: "string \<Rightarrow> world \<Rightarrow> world" where
  "performance_mark name w =
     w\<lparr>timeline := timeline w @
          [\<lparr>entry_name = name, entry_type = Mark,
            startTime = performance_now w, duration = 0\<rparr>]\<rparr>"

text \<open>The time of the most recent mark of a name, if there is one.\<close>

definition mark_time :: "string \<Rightarrow> world \<Rightarrow> rat option" where
  "mark_time name w =
     (case filter (\<lambda>e. entry_type e = Mark \<and> entry_name e = name) (timeline w) of
        [] \<Rightarrow> None
      | e # es \<Rightarrow> Some (startTime (last (e # es))))"

text \<open>
  \<^verbatim>\<open>performance.measure(name, startMark, endMark)\<close>: the measure starts at the most
  recent mark named \<^verbatim>\<open>startMark\<close> (at the time origin when omitted) and ends at the
  most recent mark named \<^verbatim>\<open>endMark\<close> (now when omitted). A name with no mark
  throws a \<^verbatim>\<open>SyntaxError\<close>.
\<close>

definition performance_measure ::
  "string \<Rightarrow> string option \<Rightarrow> string option \<Rightarrow> world \<Rightarrow> exn option \<times> world" where
  "performance_measure name startMark endMark w =
     (let end_time = (case endMark of None \<Rightarrow> Some (performance_now w)
                                     | Some m \<Rightarrow> mark_time m w);
          start_time = (case startMark of None \<Rightarrow> Some 0
                                         | Some m \<Rightarrow> mark_time m w)
      in case (start_time, end_time) of
           (Some s, Some e) \<Rightarrow>
             (None, w\<lparr>timeline := timeline w @
                        [\<lparr>entry_name = name, entry_type = Measure,
                          startTime = s, duration = e - s\<rparr>]\<rparr>)
         | _ \<Rightarrow> (Some SyntaxError, w))"

text \<open>
  \<^verbatim>\<open>performance.getEntriesByName(name)\<close>: the entries of that name, marks and
  measures alike, in chronological order of their start time.
\<close>

definition performance_getEntriesByName :: "string \<Rightarrow> world \<Rightarrow> perf_entry list" where
  "performance_getEntriesByName name w =
     sort_key startTime (filter (\<lambda>e. entry_name e = name) (timeline w))"

text \<open>\<^verbatim>\<open>Math.round\<close>: the nearest integer, a tie going up.\<close>

definition Math_round :: "rat \<Rightarrow> int" where
  "Math_round x = \<lfloor>x + 1 / 2\<rfloor>"

subsection \<open>setupPerformanceAPI\<close>

definition setupPerformanceAPI :: "tracker \<Rightarrow> world \<Rightarrow> world" where
  "setupPerformanceAPI tracker w = w\<lparr>telemetry_performance := perf_bound tracker\<rparr>"

text \<open>The \<^verbatim>\<open>mark\<close> function of a \<^verbatim>\<open>telemetry.performance\<close> object.\<close>

fun perf_mark :: "perf_api \<Rightarrow> string \<Rightarrow> world \<Rightarrow> exn option \<times> world" where
  "perf_mark perf_NO_OP name w = (None, w)"
| "perf_mark (perf_bound tracker) name w =
     (if doNotTrack w then (None, w)
      else (None, performance_mark name w))"

text \<open>The \<^verbatim>\<open>measure\<close> function of a \<^verbatim>\<open>telemetry.performance\<close> object.\<close>

fun perf_measure ::
  "perf_api \<Rightarrow> string \<Rightarrow> string option \<Rightarrow> string option \<Rightarrow> world \<Rightarrow> exn option \<times> world" where
  "perf_measure perf_NO_OP name start end w = (None, w)"
| "perf_measure (perf_bound tracker) name start end w =
     (if doNotTrack w then (None, w)
      else
        case performance_measure name start end w of
          (Some e, w1) \<Rightarrow> (Some e, w1)
        | (None, w1) \<Rightarrow>
            (case performance_getEntriesByName name w1 of
               [] \<Rightarrow> (Some TypeError, w1)
             | performanceEntry # _ \<Rightarrow>
                 call_tracker tracker (JStr ''event'') (JStr name)
                   (Some [(''event_category'', JStr ''Performance''),
                          (''value'', JNum (of_int (Math_round (duration performanceEntry))))])
                   w1))"

text \<open>\<^verbatim>\<open>telemetry.performance.mark(name)\<close> and \<^verbatim>\<open>telemetry.performance.measure(...)\<close>.\<close>

definition telemetry_performance_mark :: "string \<Rightarrow> world \<Rightarrow> exn option \<times> world" where
  "telemetry_performance_mark name w = perf_mark (telemetry_performance w) name w"

definition telemetry_performance_measure ::
  "string \<Rightarrow> string option \<Rightarrow> string option \<Rightarrow> world \<Rightarrow> exn option \<times> world" where
  "telemetry_performance_measure name start end w =
     perf_measure (telemetry_performance w) name start end w"

subsection \<open>telemetry.start\<close>

text \<open>The function handed to \<^verbatim>\<open>onlyOnce\<close> on line 49.\<close>

definition start_body :: "obj option \<Rightarrow> world \<Rightarrow> exn option \<times> world" where
  "start_body config w =
     (let config = or_empty config
      in case (if truthy (get_prop config ''errorLogging'')
               then setupErrorLogging w else (None, w)) of
           (Some e, w1) \<Rightarrow> (Some e, w1)
         | (None, w1) \<Rightarrow>
             if truthy (get_prop config ''analytics'')
             then (case startAnalytics w1 of
                     (Inl e, w2) \<Rightarrow> (Some e, w2)
                   | (Inr researchAnalytics, w2) \<Rightarrow>
                       if truthy (get_prop config ''performance'')
                       then (None, setupPerformanceAPI researchAnalytics w2)
                       else (None, w2))
             else (None, w1))"

text \<open>
  \<^verbatim>\<open>onlyOnce(fn)\<close>: the flag \<^verbatim>\<open>called\<close> is set after \<^verbatim>\<open>fn\<close> has returned, so an
  exception thrown by \<^verbatim>\<open>fn\<close> leaves it unset.
\<close>

definition onlyOnce ::
  "('a \<Rightarrow> world \<Rightarrow> exn option \<times> world) \<Rightarrow> 'a \<Rightarrow> world \<Rightarrow> exn option \<times> world" where
  "onlyOnce fn arg w =
     (if called w then (None, w)
      else case fn arg w of
             (Some e, w') \<Rightarrow> (Some e, w')
           | (None, w') \<Rightarrow> (None, w'\<lparr>called := True\<rparr>))"

definition start :: "obj option \<Rightarrow> world \<Rightarrow> exn option \<times> world" where
  "start = onlyOnce start_body"


subsection \<open>Evaluating the module\<close>

text \<open>
  Evaluating the file in a page. \<^verbatim>\<open>Object.defineProperty(telemetry, '_gtag', ...)\<close>
  defines a property that cannot be redefined: on a \<^verbatim>\<open>telemetry\<close> object that already
  carries it (the file has been evaluated in this page before) the call throws and
  the evaluation stops there. Otherwise \<^verbatim>\<open>telemetry.performance\<close> gets its default
  object, \<^verbatim>\<open>telemetry.start\<close> a fresh guard, and \<^verbatim>\<open>setupAnalytics()\<close> runs (line 62).
\<close>

definition module_load :: "world \<Rightarrow> exn option \<times> world" where
  "module_load w =
     (if telemetry_gtag_defined w then (Some TypeError, w)
      else setupAnalytics
             (w\<lparr>telemetry_gtag_defined := True,
                telemetry_performance := perf_NO_OP,
                called := False\<rparr>))"

subsection \<open>Pages\<close>

text \<open>
  The library's own \<^verbatim>\<open>gtag\<close> finds its \<^verbatim>\<open>dataLayer\<close>: the state \<^verbatim>\<open>setupAnalytics\<close>
  establishes and that no function of the library leaves.
\<close>

definition dataLayer_present :: "world \<Rightarrow> bool" where
  "dataLayer_present w = (window_gtag w \<noteq> Some LibGtag \<or> window_dataLayer w \<noteq> None)"

text \<open>A page before the library is evaluated, with no Do-Not-Track flag.\<close>

definition blank_page :: world where
  "blank_page =
     \<lparr>navigator_doNotTrack = Undefined, navigator_msDoNotTrack = Undefined,
      window_doNotTrack = Undefined, window_dataLayer = None, window_gtag = None,
      page_gtag_calls = [], window_Raven = False, raven_installed = [],
      head_children = [], console_warnings = [], timeline = [],
      performance_now = 0, date_now = 0, telemetry_gtag_defined = False,
      called = False, telemetry_performance = perf_NO_OP\<rparr>"

text \<open>That page once the library has been evaluated in it.\<close>

definition loaded_page :: world where
  "loaded_page = snd (module_load blank_page)"

text \<open>The user turns Do-Not-Track on.\<close>

definition dnt_on :: "world \<Rightarrow> world" where
  "dnt_on w = w\<lparr>navigator_doNotTrack := JStr ''1''\<rparr>"

text \<open>The user turns Do-Not-Track off again.\<close>

definition dnt_off :: "world \<Rightarrow> world" where
  "dnt_off w = w\<lparr>navigator_doNotTrack := Undefined\<rparr>"

text \<open>
  The library was evaluated while Do-Not-Track was on, and the user has turned it off
  since: \<^verbatim>\<open>setupAnalytics\<close> returned on its first line, so the page has no
  \<^verbatim>\<open>window.gtag\<close>.
\<close>

definition cleared_page :: world where
  "cleared_page = dnt_off (snd (module_load (dnt_on blank_page)))"

text \<open>
  A page that defined \<^verbatim>\<open>dataLayer\<close> and its own \<^verbatim>\<open>gtag\<close> before the library was
  evaluated in it.
\<close>

definition snippet_page :: world where
  "snippet_page =
     snd (module_load (blank_page\<lparr>window_dataLayer := Some [], window_gtag := Some PageGtag\<rparr>))"

text \<open>
  The library was evaluated with tracking allowed, and the page has removed
  \<^verbatim>\<open>window.dataLayer\<close> since.
\<close>

definition broken_page :: world where
  "broken_page = loaded_page\<lparr>window_dataLayer := None\<rparr>"

text \<open>
  A session that measures \<^verbatim>\<open>level\<close> once, between the marks \<^verbatim>\<open>a\<close> (at 0 ms) and
  \<^verbatim>\<open>b\<close> (at 10 ms), and then sets the marks \<^verbatim>\<open>c\<close> (at 20 ms) and \<^verbatim>\<open>d\<close> (at 50 ms).
\<close>

definition repeated_measure_page :: world where
  "repeated_measure_page =
     (let w = loaded_page;
          w = snd (start (Some [(''analytics'', JBool True), (''performance'', JBool True)]) w);
          w = snd (telemetry_performance_mark ''a'' w);
          w = snd (telemetry_performance_mark ''b'' (w\<lparr>performance_now := 10\<rparr>));
          w = snd (telemetry_performance_measure ''level'' (Some ''a'') (Some ''b'') w);
          w = snd (telemetry_performance_mark ''c'' (w\<lparr>performance_now := 20\<rparr>));
          w = snd (telemetry_performance_mark ''d'' (w\<lparr>performance_now := 50\<rparr>))
      in w)"

section \<open>The analytics channel and the dataLayer\<close>

text \<open>What a call of \<^verbatim>\<open>telemetry._gtag\<close> does, by the \<^verbatim>\<open>gtag\<close> the page has.\<close>

lemma telemetry_gtag_library:
  "window_gtag w = Some LibGtag \<Longrightarrow> window_dataLayer w = Some dl \<Longrightarrow>
   telemetry_gtag args w = (None, w\<lparr>window_dataLayer := Some (dl @ [args])\<rparr>)"
  by (simp add: telemetry_gtag_def)

lemma telemetry_gtag_page:
  "window_gtag w = Some PageGtag \<Longrightarrow>
   telemetry_gtag args w = (None, w\<lparr>page_gtag_calls := page_gtag_calls w @ [args]\<rparr>)"
  by (simp add: telemetry_gtag_def)

lemma telemetry_gtag_absent:
  "window_gtag w = None \<Longrightarrow> telemetry_gtag args w = (None, w)"
  by (simp add: telemetry_gtag_def)

lemma telemetry_gtag_returns:
  "dataLayer_present w \<Longrightarrow> fst (telemetry_gtag args w) = None"
  by (cases "window_gtag w"; cases "the (window_gtag w)")
     (auto simp: telemetry_gtag_def dataLayer_present_def split: option.splits)

lemma telemetry_gtag_present:
  "dataLayer_present w \<Longrightarrow> dataLayer_present (snd (telemetry_gtag args w))"
  by (cases "window_gtag w"; cases "the (window_gtag w)")
     (auto simp: telemetry_gtag_def dataLayer_present_def split: option.splits)

lemma call_tracker_returns:
  "dataLayer_present w \<Longrightarrow> fst (call_tracker t c l eo w) = None"
  by (cases t) (simp_all add: telemetry_gtag_returns Let_def)

lemma call_tracker_present:
  "dataLayer_present w \<Longrightarrow> dataLayer_present (snd (call_tracker t c l eo w))"
  by (cases t) (simp_all add: telemetry_gtag_present Let_def)

lemma configureBoundTracker_returns:
  "dataLayer_present w \<Longrightarrow> \<exists>t. fst (configureBoundTracker tid opts w) = Inr t"
  using telemetry_gtag_returns [of w "[JStr ''config'', JStr tid, JObj (or_empty opts)]"]
  by (auto simp: configureBoundTracker_def Let_def split: prod.splits option.splits)

lemma configureBoundTracker_present:
  "dataLayer_present w \<Longrightarrow> dataLayer_present (snd (configureBoundTracker tid opts w))"
  using telemetry_gtag_present [of w "[JStr ''config'', JStr tid, JObj (or_empty opts)]"]
  by (auto simp: configureBoundTracker_def Let_def split: prod.splits option.splits)

lemma startAnalytics_returns:
  assumes p: "dataLayer_present w"
  shows "\<exists>t. fst (startAnalytics w) = Inr t"
proof -
  obtain r w1 where c: "configureBoundTracker MOZILLA_RESEARCH_TRACKER
             (Some [(''groups'', JStr ''MozillaResearch''),
                    (''custom_map'', JObj [(''dimension1'', JStr ''version'')])]) w = (r, w1)"
    by (cases "configureBoundTracker MOZILLA_RESEARCH_TRACKER
             (Some [(''groups'', JStr ''MozillaResearch''),
                    (''custom_map'', JObj [(''dimension1'', JStr ''version'')])]) w")
  obtain t where t: "r = Inr t"
    using configureBoundTracker_returns [OF p, of MOZILLA_RESEARCH_TRACKER] c
    by (metis fst_conv)
  have p1: "dataLayer_present w1"
    using configureBoundTracker_present [OF p, of MOZILLA_RESEARCH_TRACKER] c
    by (metis snd_conv)
  obtain w2 where k: "call_tracker t (JStr ''event'') (JStr ''using_webvr_template'')
                  (Some [(''version'', JStr CURRENT_VERSION)]) w1 = (None, w2)"
    using call_tracker_returns [OF p1] by (metis prod.collapse)
  have "startAnalytics w = (Inr t, w2)"
    unfolding startAnalytics_def c t by (simp add: k)
  then show ?thesis by simp
qed

lemma startAnalytics_present:
  assumes p: "dataLayer_present w"
  shows "dataLayer_present (snd (startAnalytics w))"
proof -
  obtain r w1 where c: "configureBoundTracker MOZILLA_RESEARCH_TRACKER
             (Some [(''groups'', JStr ''MozillaResearch''),
                    (''custom_map'', JObj [(''dimension1'', JStr ''version'')])]) w = (r, w1)"
    by (cases "configureBoundTracker MOZILLA_RESEARCH_TRACKER
             (Some [(''groups'', JStr ''MozillaResearch''),
                    (''custom_map'', JObj [(''dimension1'', JStr ''version'')])]) w")
  have p1: "dataLayer_present w1"
    using configureBoundTracker_present [OF p, of MOZILLA_RESEARCH_TRACKER] c
    by (metis snd_conv)
  show ?thesis
  proof (cases r)
    case (Inl e)
    then show ?thesis unfolding startAnalytics_def c by (simp add: p1)
  next
    case (Inr t)
    obtain x w2 where k: "call_tracker t (JStr ''event'') (JStr ''using_webvr_template'')
                  (Some [(''version'', JStr CURRENT_VERSION)]) w1 = (x, w2)"
      by (metis prod.collapse)
    have "dataLayer_present w2"
      using call_tracker_present [OF p1, of t] k by (metis snd_conv)
    then show ?thesis unfolding startAnalytics_def c Inr by (cases x) (simp_all add: k)
  qed
qed

lemma injectScript_snd:
  "snd (injectScript src cb w) =
     w\<lparr>head_children := head_children w @ [fst (injectScript src cb w)]\<rparr>"
  by (simp add: injectScript_def Let_def)

lemma setupErrorLogging_returns: "fst (setupErrorLogging w) = None"
  by (simp add: setupErrorLogging_def)

lemma setupErrorLogging_present:
  "dataLayer_present w \<Longrightarrow> dataLayer_present (snd (setupErrorLogging w))"
  by (simp add: setupErrorLogging_def injectScript_snd dataLayer_present_def)

lemma setupPerformanceAPI_present:
  "dataLayer_present (setupPerformanceAPI t w) = dataLayer_present w"
  by (simp add: setupPerformanceAPI_def dataLayer_present_def)

text \<open>
  From a page where the library's \<^verbatim>\<open>gtag\<close> finds its \<^verbatim>\<open>dataLayer\<close>, the body of
  \<^verbatim>\<open>start\<close> returns normally and leaves such a page.
\<close>

lemma start_body_runs:
  assumes p: "dataLayer_present w"
  shows "fst (start_body c w) = None \<and> dataLayer_present (snd (start_body c w))"
proof -
  define w1 where "w1 = (if truthy (get_prop (or_empty c) ''errorLogging'')
                         then snd (setupErrorLogging w) else w)"
  have e: "(if truthy (get_prop (or_empty c) ''errorLogging'')
               then setupErrorLogging w else (None, w)) = (None, w1)"
    using setupErrorLogging_returns [of w]
    by (cases "setupErrorLogging w") (simp add: w1_def)
  have p1: "dataLayer_present w1"
    using setupErrorLogging_present [OF p] p by (simp add: w1_def)
  obtain t w2 where a: "startAnalytics w1 = (Inr t, w2)"
    using startAnalytics_returns [OF p1] by (metis prod.collapse)
  have p2: "dataLayer_present w2"
    using startAnalytics_present [OF p1] a by simp
  show ?thesis
    unfolding start_body_def Let_def e by (simp add: a p1 p2 setupPerformanceAPI_present)
qed

lemma start_called: "called v \<Longrightarrow> start c v = (None, v)"
  by (simp add: start_def onlyOnce_def)


lemma start_present:
  assumes p: "dataLayer_present w"
  shows "dataLayer_present (snd (start c w))"
proof (cases "called w")
  case True
  then show ?thesis using p by (simp add: start_called)
next
  case False
  have "dataLayer_present ((snd (start_body c w))\<lparr>called := True\<rparr>)"
    using start_body_runs [OF p, of c] by (simp add: dataLayer_present_def)
  then show ?thesis
    using False start_body_runs [OF p, of c]
    by (cases "start_body c w") (simp add: start_def onlyOnce_def)
qed

lemma run_callback_present:
  "dataLayer_present (run_callback c err v) = dataLayer_present v"
  by (cases c) (simp_all add: dataLayer_present_def console_warn_def startRaven_def)

lemma dispatchEvent_present:
  "dataLayer_present (dispatchEvent el ty ev v) = dataLayer_present v"
proof -
  have "dataLayer_present
          (fold (\<lambda>(t, l) v. if t = ty then run_listener l ev v else v) ls v)
        = dataLayer_present v" for ls v
  proof (induction ls arbitrary: v)
    case Nil
    show ?case by simp
  next
    case (Cons a ls)
    obtain t l where a: "a = (t, l)" by (cases a)
    have "dataLayer_present (run_listener l ev v) = dataLayer_present v" for v
      by (cases l) (simp_all add: run_callback_present split: option.splits)
    then show ?case by (simp add: a Cons.IH)
  qed
  then show ?thesis by (simp add: dispatchEvent_def)
qed

lemma telemetry_performance_mark_present:
  "dataLayer_present (snd (telemetry_performance_mark name w)) = dataLayer_present w"
  by (cases "telemetry_performance w")
     (simp_all add: telemetry_performance_mark_def performance_mark_def dataLayer_present_def)

lemma performance_measure_present:
  "dataLayer_present (snd (performance_measure name s e w)) = dataLayer_present w"
  by (simp add: performance_measure_def dataLayer_present_def Let_def
        split: option.splits prod.splits)

lemma telemetry_performance_measure_present:
  assumes p: "dataLayer_present w"
  shows "dataLayer_present (snd (telemetry_performance_measure name s e w))"
proof (cases "telemetry_performance w")
  case perf_NO_OP
  then show ?thesis using p by (simp add: telemetry_performance_measure_def)
next
  case (perf_bound t)
  obtain r w1 where m: "performance_measure name s e w = (r, w1)"
    by (cases "performance_measure name s e w")
  have p1: "dataLayer_present w1"
    using performance_measure_present [of name s e w] m p by simp
  show ?thesis
    using p p1 call_tracker_present [OF p1, of t]
    by (cases r; cases "performance_getEntriesByName name w1")
       (simp_all add: telemetry_performance_measure_def perf_bound m)
qed

lemma module_load_present:
  "dataLayer_present w \<Longrightarrow> dataLayer_present (snd (module_load w))"
  by (cases "window_gtag w"; cases "the (window_gtag w)")
     (auto simp: module_load_def setupAnalytics_def dataLayer_present_def Let_def injectScript_snd
           split: option.splits prod.splits)

lemma module_load_armed:
  "\<not> telemetry_gtag_defined w \<Longrightarrow> \<not> called (snd (module_load w))"
  by (cases "window_gtag w"; cases "the (window_gtag w)")
     (auto simp: module_load_def setupAnalytics_def Let_def injectScript_snd
           split: option.splits prod.splits)

subsection \<open>The example pages\<close>

lemma doNotTrack_dnt_on: "doNotTrack (dnt_on w)"
  by (simp add: doNotTrack_def dnt_on_def)

lemma dataLayer_present_dnt_on: "dataLayer_present (dnt_on w) = dataLayer_present w"
  by (simp add: dataLayer_present_def dnt_on_def)

lemma blank_page_allowed: "\<not> doNotTrack blank_page"
  by (simp add: doNotTrack_def blank_page_def)

lemma blank_page_present: "dataLayer_present blank_page"
  by (simp add: dataLayer_present_def blank_page_def)

lemma loaded_page_eq:
  "loaded_page =
     blank_page\<lparr>window_dataLayer := Some [[JStr ''js'', JDate 0]],
                window_gtag := Some LibGtag,
                head_children :=
                  [fst (injectScript gtag_js_url (Some analytics_callback) blank_page)],
                telemetry_gtag_defined := True\<rparr>"
  by (simp add: loaded_page_def module_load_def setupAnalytics_def doNotTrack_def blank_page_def
        Let_def injectScript_snd injectScript_def)

lemma loaded_page_allowed: "\<not> doNotTrack loaded_page"
  by (simp add: loaded_page_eq doNotTrack_def blank_page_def)


lemma loaded_page_armed: "\<not> called loaded_page"
  by (simp add: loaded_page_eq blank_page_def)

lemma loaded_page_gtag: "window_gtag loaded_page = Some LibGtag"
  by (simp add: loaded_page_eq)

lemma loaded_page_dataLayer: "window_dataLayer loaded_page = Some [[JStr ''js'', JDate 0]]"
  by (simp add: loaded_page_eq)

lemma loaded_page_performance: "telemetry_performance loaded_page = perf_NO_OP"
  by (simp add: loaded_page_eq blank_page_def)

lemma cleared_page_eq:
  "cleared_page = blank_page\<lparr>telemetry_gtag_defined := True\<rparr>"
  by (simp add: cleared_page_def dnt_off_def dnt_on_def module_load_def setupAnalytics_def
        doNotTrack_def blank_page_def)

lemma cleared_page_allowed: "\<not> doNotTrack cleared_page"
  by (simp add: cleared_page_eq doNotTrack_def blank_page_def)

lemma snippet_page_eq:
  "snippet_page =
     blank_page\<lparr>window_dataLayer := Some [],
                window_gtag := Some PageGtag,
                page_gtag_calls := [[JStr ''js'', JDate 0]],
                head_children :=
                  [fst (injectScript gtag_js_url (Some analytics_callback) blank_page)],
                telemetry_gtag_defined := True\<rparr>"
  by (simp add: snippet_page_def module_load_def setupAnalytics_def doNotTrack_def blank_page_def
        Let_def injectScript_snd injectScript_def)

lemma snippet_page_allowed: "\<not> doNotTrack snippet_page"
  by (simp add: snippet_page_eq doNotTrack_def blank_page_def)

lemma broken_page_allowed: "\<not> doNotTrack broken_page"
  by (simp add: broken_page_def loaded_page_eq doNotTrack_def blank_page_def)

subsection \<open>The guard of start\<close>






subsection \<open>Script completion\<close>

lemma dispatchEvent_injected_error:
  "dispatchEvent (fst (injectScript src (Some c) w)) ''error'' ev v = run_callback c (JObj ev) v"
  by (simp add: dispatchEvent_def injectScript_def createElement_script_def Let_def)

lemma dispatchEvent_injected_load:
  "dispatchEvent (fst (injectScript src (Some c) w)) ''load'' ev v = run_callback c Null v"
  by (simp add: dispatchEvent_def injectScript_def createElement_script_def Let_def)

subsection \<open>Evaluating the module again\<close>

lemma module_reload:
  "telemetry_gtag_defined w \<Longrightarrow> module_load w = (Some TypeError, w)"
  by (simp add: module_load_def)

lemma module_load_defined:
  "telemetry_gtag_defined (snd (module_load w))"
  by (cases "window_gtag w"; cases "the (window_gtag w)")
     (auto simp: module_load_def setupAnalytics_def Let_def injectScript_snd
           split: option.splits prod.splits)

subsection \<open>measure while tracking is allowed\<close>

text \<open>\<^verbatim>\<open>Math.round\<close> is within one half of its argument.\<close>

lemma Math_round_nearest: "\<bar>of_int (Math_round x) - x\<bar> \<le> 1 / 2"
  unfolding Math_round_def by linarith

text \<open>
  With tracking allowed, \<^verbatim>\<open>measure\<close> records the measure and calls the tracker once,
  with the rounded duration of the first entry that \<^verbatim>\<open>getEntriesByName\<close> lists.
\<close>

lemma perf_measure_allowed:
  assumes "\<not> doNotTrack w"
    and "performance_measure name startMark endMark w = (None, w1)"
    and "performance_getEntriesByName name w1 = performanceEntry # rest"
  shows "perf_measure (perf_bound tracker) name startMark endMark w =
           call_tracker tracker (JStr ''event'') (JStr name)
             (Some [(''event_category'', JStr ''Performance''),
                    (''value'', JNum (of_int (Math_round (duration performanceEntry))))]) w1"
  using assms by simp

text \<open>A start or end name with no mark makes \<^verbatim>\<open>measure\<close> throw.\<close>

lemma perf_measure_missing_mark:
  assumes "\<not> doNotTrack w"
    and "mark_time m w = None"
  shows "perf_measure (perf_bound tracker) name (Some m) endMark w = (Some SyntaxError, w)"
    and "perf_measure (perf_bound tracker) name startMark (Some m) w = (Some SyntaxError, w)"
  using assms by (simp_all add: performance_measure_def Let_def split: option.splits)

section \<open>Properties\<close>

text \<open>
  C1. A tracker that \<^verbatim>\<open>configureBoundTracker\<close> returned while tracking was allowed
  re-checks \<^verbatim>\<open>doNotTrack()\<close> at every call, on whatever page \<open>w\<close> the call is made.
  When the check is true the call returns at once: nothing is forwarded and the page is
  unchanged. When it is false, what happens to the command, the label and the event
  options (the empty object when omitted, with \<^verbatim>\<open>send_to\<close> set to the \<^verbatim>\<open>groups\<close>
  value of construction time when that value is truthy) depends on \<^verbatim>\<open>window.gtag\<close>:
  the page's own function receives them; the library's function pushes them on
  \<^verbatim>\<open>window.dataLayer\<close>, and throws when the page has no \<^verbatim>\<open>dataLayer\<close>; and without
  \<^verbatim>\<open>window.gtag\<close> the call reaches the \<^verbatim>\<open>NO_OP\<close> of line 40 and nothing is sent.
\<close>

theorem trackingFunction_forwards:
  assumes "\<not> doNotTrack w0"
    and "configureBoundTracker trackingId options w0 = (Inr trackerFn, w1)"
  shows "(doNotTrack w \<longrightarrow> call_tracker trackerFn command label eventOptions w = (None, w))
       \<and> (\<not> doNotTrack w \<and> window_gtag w = Some PageGtag \<longrightarrow>
            call_tracker trackerFn command label eventOptions w =
              (None, w\<lparr>page_gtag_calls := page_gtag_calls w @
                 [[command, label,
                   JObj (if truthy (get_prop (or_empty options) ''groups'')
                         then set_prop (or_empty eventOptions) ''send_to''
                                (get_prop (or_empty options) ''groups'')
                         else or_empty eventOptions)]]\<rparr>))
       \<and> (\<forall>dl. \<not> doNotTrack w \<and> window_gtag w = Some LibGtag \<and> window_dataLayer w = Some dl \<longrightarrow>
            call_tracker trackerFn command label eventOptions w =
              (None, w\<lparr>window_dataLayer := Some (dl @
                 [[command, label,
                   JObj (if truthy (get_prop (or_empty options) ''groups'')
                         then set_prop (or_empty eventOptions) ''send_to''
                                (get_prop (or_empty options) ''groups'')
                         else or_empty eventOptions)]])\<rparr>))
       \<and> (\<not> doNotTrack w \<and> window_gtag w = None \<longrightarrow>
            call_tracker trackerFn command label eventOptions w = (None, w))
       \<and> (\<not> doNotTrack w \<and> window_gtag w = Some LibGtag \<and> window_dataLayer w = None \<longrightarrow>
            call_tracker trackerFn command label eventOptions w = (Some TypeError, w))"
proof -
  have "trackerFn = trackingFunction (get_prop (or_empty options) ''groups'')"
    using assms
    by (auto simp: configureBoundTracker_def Let_def split: prod.splits option.splits)
  then show ?thesis by (simp add: Let_def telemetry_gtag_def)
qed

theorem trackingFunction_forwards_witness:
  "\<not> doNotTrack loaded_page
   \<and> configureBoundTracker ''UA-77033033-6'' (Some [(''groups'', JStr ''MozillaResearch'')])
        loaded_page
      = (Inr (trackingFunction (JStr ''MozillaResearch'')),
         snd (configureBoundTracker ''UA-77033033-6'' (Some [(''groups'', JStr ''MozillaResearch'')])
                loaded_page))
   \<and> call_tracker (trackingFunction (JStr ''MozillaResearch'')) (JStr ''event'') (JStr ''click'')
        None (dnt_on loaded_page) = (None, dnt_on loaded_page)
   \<and> call_tracker (trackingFunction (JStr ''MozillaResearch'')) (JStr ''event'') (JStr ''click'')
        None loaded_page
      = (None, loaded_page\<lparr>window_dataLayer :=
           Some [[JStr ''js'', JDate 0],
                 [JStr ''event'', JStr ''click'',
                  JObj [(''send_to'', JStr ''MozillaResearch'')]]]\<rparr>)
   \<and> call_tracker (trackingFunction (JStr ''MozillaResearch'')) (JStr ''event'') (JStr ''click'')
        None snippet_page
      = (None, snippet_page\<lparr>page_gtag_calls :=
           [[JStr ''js'', JDate 0],
            [JStr ''event'', JStr ''click'',
             JObj [(''send_to'', JStr ''MozillaResearch'')]]]\<rparr>)
   \<and> call_tracker (trackingFunction (JStr ''MozillaResearch'')) (JStr ''event'') (JStr ''click'')
        None cleared_page = (None, cleared_page)
   \<and> call_tracker (trackingFunction (JStr ''MozillaResearch'')) (JStr ''event'') (JStr ''click'')
        None broken_page = (Some TypeError, broken_page)"
proof -
  have h1: "\<not> doNotTrack loaded_page" by (rule loaded_page_allowed)
  have h2: "configureBoundTracker ''UA-77033033-6'' (Some [(''groups'', JStr ''MozillaResearch'')])
        loaded_page
      = (Inr (trackingFunction (JStr ''MozillaResearch'')),
         snd (configureBoundTracker ''UA-77033033-6'' (Some [(''groups'', JStr ''MozillaResearch'')])
                loaded_page))"
    using h1
    by (simp add: configureBoundTracker_def Let_def or_empty_def get_prop_def telemetry_gtag_def
          loaded_page_gtag loaded_page_dataLayer)
  note t = trackingFunction_forwards [OF h1 h2, of _ "JStr ''event''" "JStr ''click''" None]
  have a: "call_tracker (trackingFunction (JStr ''MozillaResearch'')) (JStr ''event'')
             (JStr ''click'') None (dnt_on loaded_page) = (None, dnt_on loaded_page)"
    using t [of "dnt_on loaded_page"] doNotTrack_dnt_on [of loaded_page]
    by simp
  have b: "call_tracker (trackingFunction (JStr ''MozillaResearch'')) (JStr ''event'')
             (JStr ''click'') None loaded_page
      = (None, loaded_page\<lparr>window_dataLayer :=
           Some [[JStr ''js'', JDate 0],
                 [JStr ''event'', JStr ''click'',
                  JObj [(''send_to'', JStr ''MozillaResearch'')]]]\<rparr>)"
    using t [of loaded_page] h1 loaded_page_gtag loaded_page_dataLayer
    by (simp add: or_empty_def get_prop_def set_prop_def)
  have c: "call_tracker (trackingFunction (JStr ''MozillaResearch'')) (JStr ''event'')
             (JStr ''click'') None snippet_page
      = (None, snippet_page\<lparr>page_gtag_calls :=
           [[JStr ''js'', JDate 0],
            [JStr ''event'', JStr ''click'',
             JObj [(''send_to'', JStr ''MozillaResearch'')]]]\<rparr>)"
    using t [of snippet_page] snippet_page_allowed
    by (simp add: or_empty_def get_prop_def set_prop_def snippet_page_eq)
  have d: "call_tracker (trackingFunction (JStr ''MozillaResearch'')) (JStr ''event'')
             (JStr ''click'') None cleared_page = (None, cleared_page)"
    using t [of cleared_page] cleared_page_allowed
    by (simp add: cleared_page_eq blank_page_def)
  have e: "call_tracker (trackingFunction (JStr ''MozillaResearch'')) (JStr ''event'')
             (JStr ''click'') None broken_page = (Some TypeError, broken_page)"
    using t [of broken_page] broken_page_allowed
    by (simp add: broken_page_def loaded_page_gtag)
  from h1 h2 a b c d e show ?thesis by blast
qed

theorem trackingFunction_without_gtag:
  "\<not> doNotTrack cleared_page
   \<and> configureBoundTracker ''UA-77033033-6'' (Some [(''groups'', JStr ''MozillaResearch'')])
        cleared_page
      = (Inr (trackingFunction (JStr ''MozillaResearch'')), cleared_page)
   \<and> call_tracker (trackingFunction (JStr ''MozillaResearch'')) (JStr ''event'') (JStr ''click'')
        None cleared_page = (None, cleared_page)
   \<and> window_gtag cleared_page = None
   \<and> window_dataLayer cleared_page = None
   \<and> page_gtag_calls cleared_page = []
   \<and> \<not> doNotTrack loaded_page
   \<and> fst (configureBoundTracker ''UA-77033033-6'' (Some [(''groups'', JStr ''MozillaResearch'')])
             loaded_page)
      = Inr (trackingFunction (JStr ''MozillaResearch''))
   \<and> \<not> doNotTrack broken_page
   \<and> call_tracker (trackingFunction (JStr ''MozillaResearch'')) (JStr ''event'') (JStr ''click'')
        None broken_page = (Some TypeError, broken_page)"
proof -
  have a: "\<not> doNotTrack cleared_page
   \<and> configureBoundTracker ''UA-77033033-6'' (Some [(''groups'', JStr ''MozillaResearch'')])
        cleared_page
      = (Inr (trackingFunction (JStr ''MozillaResearch'')), cleared_page)
   \<and> call_tracker (trackingFunction (JStr ''MozillaResearch'')) (JStr ''event'') (JStr ''click'')
        None cleared_page = (None, cleared_page)
   \<and> window_gtag cleared_page = None
   \<and> window_dataLayer cleared_page = None
   \<and> page_gtag_calls cleared_page = []"
    by (simp add: cleared_page_eq blank_page_def doNotTrack_def configureBoundTracker_def Let_def
          or_empty_def get_prop_def telemetry_gtag_def)
  have b: "fst (configureBoundTracker ''UA-77033033-6''
                  (Some [(''groups'', JStr ''MozillaResearch'')]) loaded_page)
      = Inr (trackingFunction (JStr ''MozillaResearch''))"
    using loaded_page_allowed
    by (simp add: configureBoundTracker_def Let_def or_empty_def get_prop_def telemetry_gtag_def
          loaded_page_gtag loaded_page_dataLayer)
  have c: "call_tracker (trackingFunction (JStr ''MozillaResearch'')) (JStr ''event'')
             (JStr ''click'') None broken_page = (Some TypeError, broken_page)"
    using broken_page_allowed
    by (simp add: Let_def telemetry_gtag_def broken_page_def loaded_page_gtag)
  from a b c loaded_page_allowed broken_page_allowed show ?thesis by blast
qed

text \<open>
  C2. \<^verbatim>\<open>configureBoundTracker(trackingId, options)\<close>. When \<^verbatim>\<open>doNotTrack()\<close> is true
  the result is \<^verbatim>\<open>NO_OP\<close>, which does nothing for every argument on every page, and
  the page is unchanged: no \<^verbatim>\<open>config\<close> command is issued. When it is false, the
  command \<^verbatim>\<open>('config', trackingId, options)\<close>, with the empty object for omitted
  options, goes to \<^verbatim>\<open>window.gtag\<close> once: the page's own function receives it, or the
  library's function pushes it on \<^verbatim>\<open>window.dataLayer\<close>, nothing else changes, and the
  result is the tracker bound to \<^verbatim>\<open>options.groups\<close>. Without \<^verbatim>\<open>window.gtag\<close> no
  command is issued, the page is unchanged, and the bound tracker is returned all the
  same. With the library's function and no \<^verbatim>\<open>window.dataLayer\<close> the call throws: no
  command is issued and no tracker is returned.
\<close>

theorem configureBoundTracker_cases:
  "(doNotTrack w \<longrightarrow>
      configureBoundTracker trackingId options w = (Inr NO_OP, w)
      \<and> (\<forall>command label eventOptions v.
            call_tracker NO_OP command label eventOptions v = (None, v)))
   \<and> (\<not> doNotTrack w \<and> window_gtag w = Some PageGtag \<longrightarrow>
        configureBoundTracker trackingId options w =
          (Inr (trackingFunction (get_prop (or_empty options) ''groups'')),
           w\<lparr>page_gtag_calls := page_gtag_calls w @
                [[JStr ''config'', JStr trackingId, JObj (or_empty options)]]\<rparr>))
   \<and> (\<forall>dl. \<not> doNotTrack w \<and> window_gtag w = Some LibGtag \<and> window_dataLayer w = Some dl \<longrightarrow>
        configureBoundTracker trackingId options w =
          (Inr (trackingFunction (get_prop (or_empty options) ''groups'')),
           w\<lparr>window_dataLayer := Some (dl @
                [[JStr ''config'', JStr trackingId, JObj (or_empty options)]])\<rparr>))
   \<and> (\<not> doNotTrack w \<and> window_gtag w = None \<longrightarrow>
        configureBoundTracker trackingId options w =
          (Inr (trackingFunction (get_prop (or_empty options) ''groups'')), w))
   \<and> (\<not> doNotTrack w \<and> window_gtag w = Some LibGtag \<and> window_dataLayer w = None \<longrightarrow>
        configureBoundTracker trackingId options w = (Inl TypeError, w))"
  by (simp add: configureBoundTracker_def Let_def telemetry_gtag_def)

theorem configureBoundTracker_cases_witness:
  "configureBoundTracker ''UA-77033033-6'' (Some [(''groups'', JStr ''MozillaResearch'')])
        (dnt_on loaded_page) = (Inr NO_OP, dnt_on loaded_page)
   \<and> configureBoundTracker ''UA-77033033-6'' (Some [(''groups'', JStr ''MozillaResearch'')])
        loaded_page
      = (Inr (trackingFunction (JStr ''MozillaResearch'')),
         loaded_page\<lparr>window_dataLayer :=
           Some [[JStr ''js'', JDate 0],
                 [JStr ''config'', JStr ''UA-77033033-6'',
                  JObj [(''groups'', JStr ''MozillaResearch'')]]]\<rparr>)
   \<and> configureBoundTracker ''UA-77033033-6'' (Some [(''groups'', JStr ''MozillaResearch'')])
        snippet_page
      = (Inr (trackingFunction (JStr ''MozillaResearch'')),
         snippet_page\<lparr>page_gtag_calls :=
           [[JStr ''js'', JDate 0],
            [JStr ''config'', JStr ''UA-77033033-6'',
             JObj [(''groups'', JStr ''MozillaResearch'')]]]\<rparr>)
   \<and> configureBoundTracker ''UA-77033033-6'' None cleared_page
      = (Inr (trackingFunction Undefined), cleared_page)
   \<and> configureBoundTracker ''UA-77033033-6'' None broken_page = (Inl TypeError, broken_page)"
proof -
  note t = configureBoundTracker_cases [of _ "''UA-77033033-6''"]
  have a: "configureBoundTracker ''UA-77033033-6'' (Some [(''groups'', JStr ''MozillaResearch'')])
        (dnt_on loaded_page) = (Inr NO_OP, dnt_on loaded_page)"
    using t [of "dnt_on loaded_page" "Some [(''groups'', JStr ''MozillaResearch'')]"]
      doNotTrack_dnt_on [of loaded_page]
    by simp
  have b: "configureBoundTracker ''UA-77033033-6'' (Some [(''groups'', JStr ''MozillaResearch'')])
        loaded_page
      = (Inr (trackingFunction (JStr ''MozillaResearch'')),
         loaded_page\<lparr>window_dataLayer :=
           Some [[JStr ''js'', JDate 0],
                 [JStr ''config'', JStr ''UA-77033033-6'',
                  JObj [(''groups'', JStr ''MozillaResearch'')]]]\<rparr>)"
    using t [of loaded_page "Some [(''groups'', JStr ''MozillaResearch'')]"]
      loaded_page_allowed loaded_page_gtag loaded_page_dataLayer
    by (simp add: or_empty_def get_prop_def)
  have c: "configureBoundTracker ''UA-77033033-6'' (Some [(''groups'', JStr ''MozillaResearch'')])
        snippet_page
      = (Inr (trackingFunction (JStr ''MozillaResearch'')),
         snippet_page\<lparr>page_gtag_calls :=
           [[JStr ''js'', JDate 0],
            [JStr ''config'', JStr ''UA-77033033-6'',
             JObj [(''groups'', JStr ''MozillaResearch'')]]]\<rparr>)"
    using t [of snippet_page "Some [(''groups'', JStr ''MozillaResearch'')]"]
      snippet_page_allowed
    by (simp add: or_empty_def get_prop_def snippet_page_eq)
  have d: "configureBoundTracker ''UA-77033033-6'' None cleared_page
      = (Inr (trackingFunction Undefined), cleared_page)"
    using t [of cleared_page None] cleared_page_allowed
    by (simp add: or_empty_def get_prop_def cleared_page_eq blank_page_def)
  have e: "configureBoundTracker ''UA-77033033-6'' None broken_page = (Inl TypeError, broken_page)"
    using t [of broken_page None] broken_page_allowed
    by (simp add: broken_page_def loaded_page_gtag)
  from a b c d e show ?thesis by blast
qed

theorem configureBoundTracker_without_gtag:
  "\<not> doNotTrack cleared_page
   \<and> configureBoundTracker ''UA-77033033-6''
        (Some [(''groups'', JStr ''MozillaResearch''),
               (''custom_map'', JObj [(''dimension1'', JStr ''version'')])]) cleared_page
      = (Inr (trackingFunction (JStr ''MozillaResearch'')), cleared_page)
   \<and> window_gtag cleared_page = None
   \<and> window_dataLayer cleared_page = None
   \<and> page_gtag_calls cleared_page = []
   \<and> \<not> doNotTrack broken_page
   \<and> configureBoundTracker ''UA-77033033-6''
        (Some [(''groups'', JStr ''MozillaResearch''),
               (''custom_map'', JObj [(''dimension1'', JStr ''version'')])]) broken_page
      = (Inl TypeError, broken_page)"
proof -
  have a: "\<not> doNotTrack cleared_page
   \<and> configureBoundTracker ''UA-77033033-6''
        (Some [(''groups'', JStr ''MozillaResearch''),
               (''custom_map'', JObj [(''dimension1'', JStr ''version'')])]) cleared_page
      = (Inr (trackingFunction (JStr ''MozillaResearch'')), cleared_page)
   \<and> window_gtag cleared_page = None
   \<and> window_dataLayer cleared_page = None
   \<and> page_gtag_calls cleared_page = []"
    by (simp add: cleared_page_eq blank_page_def doNotTrack_def configureBoundTracker_def Let_def
          or_empty_def get_prop_def telemetry_gtag_def)
  have b: "configureBoundTracker ''UA-77033033-6''
        (Some [(''groups'', JStr ''MozillaResearch''),
               (''custom_map'', JObj [(''dimension1'', JStr ''version'')])]) broken_page
      = (Inl TypeError, broken_page)"
    using broken_page_allowed
    by (simp add: configureBoundTracker_def Let_def telemetry_gtag_def broken_page_def
          loaded_page_gtag)
  from a b broken_page_allowed show ?thesis by blast
qed




text \<open>
  C4. \<^verbatim>\<open>doNotTrack()\<close> is true exactly when at least one of
  \<^verbatim>\<open>navigator.doNotTrack\<close>, \<^verbatim>\<open>navigator.msDoNotTrack\<close> and \<^verbatim>\<open>window.doNotTrack\<close> is the
  string \<^verbatim>\<open>"1"\<close>, and false otherwise. It is a function of the three flags alone: it
  computes a boolean, changes nothing and has no failing branch.
\<close>

theorem doNotTrack_iff:
  "doNotTrack w \<longleftrightarrow>
     JStr ''1'' \<in> {navigator_doNotTrack w, navigator_msDoNotTrack w, window_doNotTrack w}"
  by (auto simp: doNotTrack_def)

text \<open>
  C5. \<^verbatim>\<open>start\<close> with a configuration whose \<^verbatim>\<open>analytics\<close> is absent or falsy, such as
  \<^verbatim>\<open>{performance: true}\<close>, on a page whose \<^verbatim>\<open>telemetry.performance\<close> is the default
  object: the call returns normally, \<^verbatim>\<open>telemetry.performance\<close> is still the default
  object, whose \<^verbatim>\<open>mark\<close> and \<^verbatim>\<open>measure\<close> return normally and change nothing for every
  argument on every page, and no command has reached the analytics channel (no
  tracker was configured).
\<close>

theorem performance_without_analytics:
  assumes "\<not> truthy (get_prop config ''analytics'')"
    and "telemetry_performance w = perf_NO_OP"
  shows "fst (start (Some config) w) = None
       \<and> telemetry_performance (snd (start (Some config) w)) = perf_NO_OP
       \<and> window_dataLayer (snd (start (Some config) w)) = window_dataLayer w
       \<and> page_gtag_calls (snd (start (Some config) w)) = page_gtag_calls w
       \<and> (\<forall>name v. perf_mark (telemetry_performance (snd (start (Some config) w))) name v
                      = (None, v))
       \<and> (\<forall>name startMark endMark v.
             perf_measure (telemetry_performance (snd (start (Some config) w)))
               name startMark endMark v = (None, v))"
proof -
  have b: "start_body (Some config) w =
             (if truthy (get_prop config ''errorLogging'') then setupErrorLogging w else (None, w))"
    using assms(1) by (simp add: start_body_def or_empty_def setupErrorLogging_def)
  have p: "telemetry_performance (snd (start (Some config) w)) = perf_NO_OP"
    using assms(2)
    by (simp add: start_def onlyOnce_def b setupErrorLogging_def injectScript_snd)
  have "fst (start (Some config) w) = None"
    by (simp add: start_def onlyOnce_def b setupErrorLogging_def)
  moreover have "window_dataLayer (snd (start (Some config) w)) = window_dataLayer w"
    by (simp add: start_def onlyOnce_def b setupErrorLogging_def injectScript_snd)
  moreover have "page_gtag_calls (snd (start (Some config) w)) = page_gtag_calls w"
    by (simp add: start_def onlyOnce_def b setupErrorLogging_def injectScript_snd)
  ultimately show ?thesis by (simp add: p)
qed

theorem performance_without_analytics_witness:
  "\<not> truthy (get_prop [(''performance'', JBool True)] ''analytics'')
   \<and> telemetry_performance loaded_page = perf_NO_OP
   \<and> fst (start (Some [(''performance'', JBool True)]) loaded_page) = None
   \<and> telemetry_performance (snd (start (Some [(''performance'', JBool True)]) loaded_page))
       = perf_NO_OP
   \<and> window_dataLayer (snd (start (Some [(''performance'', JBool True)]) loaded_page))
       = Some [[JStr ''js'', JDate 0]]"
proof -
  have h1: "\<not> truthy (get_prop [(''performance'', JBool True)] ''analytics'')"
    by (simp add: get_prop_def)
  have h2: "telemetry_performance loaded_page = perf_NO_OP"
    by (rule loaded_page_performance)
  show ?thesis
    using performance_without_analytics [OF h1 h2] h1 h2
    by (simp add: loaded_page_dataLayer)
qed

text \<open>
  C6. \<^verbatim>\<open>setupErrorLogging()\<close> with tracking allowed requests the Raven script and
  returns normally, with no other change to the page. When the load of that script
  later ends in an \<^verbatim>\<open>error\<close> event, on whatever page \<open>v\<close>, exactly one warning is
  logged and nothing else changes: Raven is neither configured nor installed. When it
  ends in a \<^verbatim>\<open>load\<close> event on a page without \<^verbatim>\<open>window.Raven\<close>, again exactly one
  warning is logged and nothing else changes. \<^verbatim>\<open>start\<close> with a configuration that
  requests no analytics returns normally.
\<close>

theorem setupErrorLogging_load_failure:
  assumes "\<not> doNotTrack w"
  shows "setupErrorLogging w =
           (None, w\<lparr>head_children := head_children w @
                      [fst (injectScript raven_js_url (Some raven_callback) w)]\<rparr>)
       \<and> (\<forall>ev v. dispatchEvent (fst (injectScript raven_js_url (Some raven_callback) w))
                    ''error'' ev v
                  = v\<lparr>console_warnings := console_warnings v @
                        [[JStr ''Could not load Raven.js script:'', JObj ev]]\<rparr>)
       \<and> (\<forall>ev v. \<not> window_Raven v \<longrightarrow>
                  dispatchEvent (fst (injectScript raven_js_url (Some raven_callback) w))
                    ''load'' ev v
                  = v\<lparr>console_warnings := console_warnings v @
                        [[JStr ''Could not find `window.Raven` global'']]\<rparr>)
       \<and> (\<forall>config. \<not> truthy (get_prop config ''analytics'') \<longrightarrow>
                  fst (start (Some config) w) = None)"
proof -
  have "setupErrorLogging w =
           (None, w\<lparr>head_children := head_children w @
                      [fst (injectScript raven_js_url (Some raven_callback) w)]\<rparr>)"
    using assms by (simp add: setupErrorLogging_def injectScript_snd)
  moreover have "fst (start (Some config) w) = None"
    if "\<not> truthy (get_prop config ''analytics'')" for config
    using that
    by (simp add: start_def onlyOnce_def start_body_def or_empty_def setupErrorLogging_def)
  ultimately show ?thesis
    by (simp add: dispatchEvent_injected_error dispatchEvent_injected_load console_warn_def)
qed

theorem setupErrorLogging_load_failure_witness:
  "\<not> doNotTrack loaded_page
   \<and> fst (start (Some [(''errorLogging'', JBool True)]) loaded_page) = None
   \<and> dispatchEvent (fst (injectScript raven_js_url (Some raven_callback) loaded_page))
        ''error'' [(''type'', JStr ''error'')]
        (snd (start (Some [(''errorLogging'', JBool True)]) loaded_page))
      = (snd (start (Some [(''errorLogging'', JBool True)]) loaded_page))
          \<lparr>console_warnings :=
             [[JStr ''Could not load Raven.js script:'', JObj [(''type'', JStr ''error'')]]]\<rparr>
   \<and> dispatchEvent (fst (injectScript raven_js_url (Some raven_callback) loaded_page))
        ''load'' [(''type'', JStr ''load'')]
        (snd (start (Some [(''errorLogging'', JBool True)]) loaded_page))
      = (snd (start (Some [(''errorLogging'', JBool True)]) loaded_page))
          \<lparr>console_warnings := [[JStr ''Could not find `window.Raven` global'']]\<rparr>"
proof -
  have h: "\<not> doNotTrack loaded_page" by (rule loaded_page_allowed)
  have a: "\<not> truthy (get_prop [(''errorLogging'', JBool True)] ''analytics'')"
    by (simp add: get_prop_def)
  have s: "snd (start (Some [(''errorLogging'', JBool True)]) loaded_page)
           = loaded_page\<lparr>head_children := head_children loaded_page @
                 [fst (injectScript raven_js_url (Some raven_callback) loaded_page)],
               called := True\<rparr>"
    using h loaded_page_armed
    by (simp add: start_def onlyOnce_def start_body_def or_empty_def get_prop_def
          setupErrorLogging_def injectScript_snd)
  have c: "console_warnings (snd (start (Some [(''errorLogging'', JBool True)]) loaded_page)) = []"
    unfolding s by (simp add: loaded_page_eq blank_page_def)
  have r: "\<not> window_Raven (snd (start (Some [(''errorLogging'', JBool True)]) loaded_page))"
    unfolding s by (simp add: loaded_page_eq blank_page_def)
  show ?thesis
    using setupErrorLogging_load_failure [OF h] h a r
    by (simp add: c)
qed

text \<open>
  C7. \<^verbatim>\<open>telemetry.performance.measure(name, start, end)\<close> called while
  \<^verbatim>\<open>doNotTrack()\<close> is true returns normally and leaves the page as it was, whichever
  object \<^verbatim>\<open>telemetry.performance\<close> is: no measure is recorded, no entry is read, the
  tracker is not called, and the timeline and the analytics channel are unchanged.
\<close>

theorem measure_disallowed:
  assumes "doNotTrack w"
  shows "telemetry_performance_measure name startMark endMark w = (None, w)"
  using assms by (cases "telemetry_performance w") (simp_all add: telemetry_performance_measure_def)

theorem measure_disallowed_witness:
  "doNotTrack (dnt_on repeated_measure_page)
   \<and> telemetry_performance (dnt_on repeated_measure_page)
       = perf_bound (trackingFunction (JStr ''MozillaResearch''))
   \<and> telemetry_performance_measure ''level'' (Some ''c'') (Some ''d'')
        (dnt_on repeated_measure_page) = (None, dnt_on repeated_measure_page)"
proof -
  have h: "doNotTrack (dnt_on repeated_measure_page)" by (rule doNotTrack_dnt_on)
  have t: "telemetry_performance (dnt_on repeated_measure_page)
       = perf_bound (trackingFunction (JStr ''MozillaResearch''))"
    by code_simp
  from h t measure_disallowed [OF h, of "''level''" "Some ''c''" "Some ''d''"]
  show ?thesis by blast
qed

text \<open>
  C8. \<^verbatim>\<open>telemetry.performance.measure\<close> while tracking is allowed, on a page where
  the name has been measured before. In \<open>repeated_measure_page\<close> the name \<^verbatim>\<open>level\<close>
  has an entry of 10 ms. The call \<^verbatim>\<open>measure('level', 'c', 'd')\<close> returns normally and
  records a new entry of 30 ms, the most recent one of the timeline, but the event it
  forwards carries the value 10: \<^verbatim>\<open>getEntriesByName\<close> lists the entries by start time
  and the code reads the first of them.
\<close>

theorem measure_reports_first_entry:
  "fst (telemetry_performance_measure ''level'' (Some ''c'') (Some ''d'') repeated_measure_page)
     = None
   \<and> last (timeline (snd (telemetry_performance_measure ''level'' (Some ''c'') (Some ''d'')
                            repeated_measure_page)))
     = \<lparr>entry_name = ''level'', entry_type = Measure, startTime = 20, duration = 30\<rparr>
   \<and> map_option last
       (window_dataLayer (snd (telemetry_performance_measure ''level'' (Some ''c'') (Some ''d'')
                                 repeated_measure_page)))
     = Some [JStr ''event'', JStr ''level'',
             JObj [(''event_category'', JStr ''Performance''), (''value'', JNum 10),
                   (''send_to'', JStr ''MozillaResearch'')]]"
  by code_simp

text \<open>
  C9. \<^verbatim>\<open>injectScript(src, callback)\<close> appends to \<^verbatim>\<open>document.head\<close> a script element
  whose \<^verbatim>\<open>src\<close> is the URL, and does so whatever the Do-Not-Track flags are. The
  assignment of line 170 creates the property \<^verbatim>\<open>crossorigin\<close> on the element; the
  property \<^verbatim>\<open>crossOrigin\<close> stays \<^verbatim>\<open>null\<close>, so the element is fetched in no-cors
  mode, not in anonymous CORS mode.
\<close>

theorem injectScript_crossorigin:
  "el_src (fst (injectScript src cb w)) = src
   \<and> snd (injectScript src cb w) =
       w\<lparr>head_children := head_children w @ [fst (injectScript src cb w)]\<rparr>
   \<and> fst (injectScript src cb (dnt_on w)) = fst (injectScript src cb w)
   \<and> el_expando (fst (injectScript src cb w)) = [(''crossorigin'', JStr ''anonymous'')]
   \<and> el_crossOrigin (fst (injectScript src cb w)) = None
   \<and> cors_setting (fst (injectScript src cb w)) = NoCORS"
  by (simp add: injectScript_def createElement_script_def Let_def cors_setting_def set_prop_def)

text \<open>
  C10. Evaluating the file in a page for the first time, before any call of
  \<^verbatim>\<open>start\<close>. When \<^verbatim>\<open>doNotTrack()\<close> is true at that moment, \<^verbatim>\<open>window.dataLayer\<close>,
  \<^verbatim>\<open>window.gtag\<close> and \<^verbatim>\<open>document.head\<close> are left as they were: only the library's
  own state is initialised. When it is false, the evaluation returns normally,
  \<^verbatim>\<open>window.dataLayer\<close> and \<^verbatim>\<open>window.gtag\<close> are defined (an existing value is kept), the
  command \<^verbatim>\<open>('js', new Date())\<close> is passed to \<^verbatim>\<open>window.gtag\<close> (the library's own
  function pushes it on the \<^verbatim>\<open>dataLayer\<close>), and one script element for the gtag.js
  URL of the tracking id is appended to \<^verbatim>\<open>document.head\<close>.
\<close>

theorem module_load_analytics:
  assumes "\<not> telemetry_gtag_defined w"
  shows "(doNotTrack w \<longrightarrow>
      module_load w = (None, w\<lparr>telemetry_gtag_defined := True,
                               telemetry_performance := perf_NO_OP, called := False\<rparr>))
   \<and> (\<not> doNotTrack w \<longrightarrow>
        fst (module_load w) = None
        \<and> window_gtag (snd (module_load w)) =
            Some (case window_gtag w of None \<Rightarrow> LibGtag | Some g \<Rightarrow> g)
        \<and> (window_gtag w \<noteq> Some PageGtag \<longrightarrow>
             window_dataLayer (snd (module_load w)) =
               Some ((case window_dataLayer w of None \<Rightarrow> [] | Some dl \<Rightarrow> dl)
                     @ [[JStr ''js'', JDate (date_now w)]]))
        \<and> (window_gtag w = Some PageGtag \<longrightarrow>
             window_dataLayer (snd (module_load w)) =
               Some (case window_dataLayer w of None \<Rightarrow> [] | Some dl \<Rightarrow> dl)
             \<and> page_gtag_calls (snd (module_load w)) =
                 page_gtag_calls w @ [[JStr ''js'', JDate (date_now w)]])
        \<and> head_children (snd (module_load w)) =
            head_children w @
              [fst (injectScript ''https://www.googletagmanager.com/gtag/js?id=UA-77033033-6''
                      (Some analytics_callback) w)])"
  using assms
  by (cases "window_gtag w"; cases "the (window_gtag w)")
     (auto simp: module_load_def setupAnalytics_def Let_def injectScript_snd doNotTrack_def
        gtag_js_url_def MOZILLA_RESEARCH_TRACKER_def injectScript_def
        split: option.splits)

theorem module_load_analytics_witness:
  "\<not> telemetry_gtag_defined blank_page
   \<and> \<not> doNotTrack blank_page
   \<and> window_gtag (snd (module_load blank_page)) = Some LibGtag
   \<and> window_dataLayer (snd (module_load blank_page)) = Some [[JStr ''js'', JDate 0]]
   \<and> map el_src (head_children (snd (module_load blank_page)))
       = [''https://www.googletagmanager.com/gtag/js?id=UA-77033033-6'']
   \<and> module_load (dnt_on blank_page)
       = (None, dnt_on (blank_page\<lparr>telemetry_gtag_defined := True\<rparr>))"
proof -
  have h: "\<not> telemetry_gtag_defined blank_page" by (simp add: blank_page_def)
  have h': "\<not> telemetry_gtag_defined (dnt_on blank_page)"
    by (simp add: blank_page_def dnt_on_def)
  have a: "\<not> doNotTrack blank_page" by (rule blank_page_allowed)
  have g: "window_gtag blank_page = None" "window_dataLayer blank_page = None"
    "date_now blank_page = 0" "head_children blank_page = []"
    by (simp_all add: blank_page_def)
  have b: "module_load (dnt_on blank_page)
       = (None, dnt_on (blank_page\<lparr>telemetry_gtag_defined := True\<rparr>))"
    using module_load_analytics [OF h'] doNotTrack_dnt_on [of blank_page]
    by (simp add: dnt_on_def blank_page_def)
  show ?thesis
    using module_load_analytics [OF h] h a b
    by (simp add: g injectScript_def createElement_script_def Let_def)
qed

end
